theory Spec2Isabelle
  imports Main "HOL-Library.Multiset"
begin

section \<open>JavaScript values used by the simulation\<close>

text \<open>
  The application keeps a grid of numbers (\<open>0\<close> for a dead cell, \<open>1\<close> for a live one) in an
  array of arrays. Cells, indices, dimensions and rule parameters are integers here (a
  number input can also deliver a number with a fractional part; those are left out). Two
  behaviours of the language are written out where the code can meet them:
  \<^item> an exception that escapes (\<open>TypeError\<close> when a property of \<open>undefined\<close> is read or
    written, \<open>RangeError\<close> when \<open>Array(n)\<close> gets a negative length);
  \<^item> \<open>NaN\<close>, which a neighbour count becomes once \<open>undefined\<close> is added to it, and
    against which every comparison is false.
  \<open>Malformed\<close> marks the point where the code would go on with an array that is no longer
  a rectangle of numbers (a write past the end of a row leaves holes, a write at a negative
  index adds a property): the model stops there. The engine's ceiling on array lengths is
  a resource bound, like memory, and is not modelled.
\<close>

datatype abort = TypeError | RangeError | Malformed

datatype js_num = Num int | NaN

fun js_add :: "js_num \<Rightarrow> js_num \<Rightarrow> js_num" where
  "js_add (Num a) (Num b) = Num (a + b)"
| "js_add _ _ = NaN"

fun js_lt :: "js_num \<Rightarrow> int \<Rightarrow> bool" where
  "js_lt (Num a) b = (a < b)"
| "js_lt NaN b = False"

fun js_gt :: "js_num \<Rightarrow> int \<Rightarrow> bool" where
  "js_gt (Num a) b = (a > b)"
| "js_gt NaN b = False"

fun js_eq :: "js_num \<Rightarrow> int \<Rightarrow> bool" where
  "js_eq (Num a) b = (a = b)"
| "js_eq NaN b = False"

type_synonym grid = "int list list"

text \<open>\<open>g[newI][newJ]\<close> as a right-hand side: a missing row throws, a missing cell is
  \<open>undefined\<close>, which turns the sum into \<open>NaN\<close>.\<close>

definition read_cell :: "grid \<Rightarrow> int \<Rightarrow> int \<Rightarrow> abort + js_num" where
  "read_cell g newI newJ =
     (if newI < 0 \<or> int (length g) \<le> newI then Inl TypeError
      else if newJ < 0 \<or> int (length (g ! nat newI)) \<le> newJ then Inr NaN
      else Inr (Num (g ! nat newI ! nat newJ)))"

text \<open>\<open>newGrid[r][c] = v\<close> as a statement.\<close>

definition set_cell :: "grid \<Rightarrow> int \<Rightarrow> int \<Rightarrow> int \<Rightarrow> abort + grid" where
  "set_cell g r c v =
     (if r < 0 \<or> int (length g) \<le> r then Inl TypeError
      else if c < 0 \<or> int (length (g ! nat r)) \<le> c then Inl Malformed
      else Inr (g[nat r := (g ! nat r)[nat c := v]]))"

text \<open>\<open>xs.map((x, k) => f(k, x))\<close> where the callback may throw: the first exception
  ends the traversal. The counter is the index of the head.\<close>

fun array_map :: "(nat \<Rightarrow> 'a \<Rightarrow> abort + 'b) \<Rightarrow> nat \<Rightarrow> 'a list \<Rightarrow> abort + 'b list" where
  "array_map f k [] = Inr []"
| "array_map f k (x # xs) =
     (case f k x of
        Inl e \<Rightarrow> Inl e
      | Inr y \<Rightarrow> (case array_map f (Suc k) xs of
                   Inl e \<Rightarrow> Inl e
                 | Inr ys \<Rightarrow> Inr (y # ys)))"

section \<open>Grid construction\<close>

text \<open>\<open>Array.from({ length: rows }, () => Array(cols).fill(0))\<close>: a length that is not
  positive gives the empty array without calling the row constructor; otherwise
  \<open>Array(cols)\<close> throws on a negative length. Both files define it alike.\<close>

definition generateEmptyGrid :: "int \<Rightarrow> int \<Rightarrow> abort + grid" where
  "generateEmptyGrid rows cols =
     (if rows \<le> 0 then Inr []
      else if cols < 0 then Inl RangeError
      else Inr (replicate (nat rows) (replicate (nat cols) 0)))"

section \<open>The rule engine\<close>

text \<open>The table of direction vectors, in the order of the source (\<open>unnamed/part_000\<close>).\<close>

definition operations :: "(int \<times> int) list" where
  "operations = [(0, 1), (0, -1), (1, -1), (-1, 1), (1, 1), (-1, -1), (1, 0), (-1, 0)]"

text \<open>The body of \<open>operations.forEach\<close>, threading the local \<open>neighbors\<close>.\<close>

fun count_neighbors ::
  "int \<Rightarrow> int \<Rightarrow> grid \<Rightarrow> nat \<Rightarrow> nat \<Rightarrow> (int \<times> int) list \<Rightarrow> js_num \<Rightarrow> abort + js_num" where
  "count_neighbors numRows numCols g i j [] neighbors = Inr neighbors"
| "count_neighbors numRows numCols g i j ((x, y) # ops) neighbors =
     (let newI = int i + x; newJ = int j + y in
      if newI \<ge> 0 \<and> newI < numRows \<and> newJ \<ge> 0 \<and> newJ < numCols
      then (case read_cell g newI newJ of
              Inl e \<Rightarrow> Inl e
            | Inr v \<Rightarrow> count_neighbors numRows numCols g i j ops (js_add neighbors v))
      else count_neighbors numRows numCols g i j ops neighbors)"

text \<open>The three \<open>return\<close> statements that end the cell callback.\<close>

definition next_cell :: "int \<Rightarrow> int \<Rightarrow> int \<Rightarrow> int \<Rightarrow> js_num \<Rightarrow> int" where
  "next_cell surviveMin surviveMax birthNum cell neighbors =
     (if cell = 1 \<and> (js_lt neighbors surviveMin \<or> js_gt neighbors surviveMax) then 0
      else if cell = 0 \<and> js_eq neighbors birthNum then 1
      else cell)"

text \<open>The updater that \<open>runSimulation\<close> hands to \<open>setGrid\<close> in \<open>unnamed/part_000\<close>;
  \<open>numRows\<close>, \<open>numCols\<close> and the rule parameters are the values its closure captured.\<close>

definition runSimulation_updater :: "int \<Rightarrow> int \<Rightarrow> int \<Rightarrow> int \<Rightarrow> int \<Rightarrow> grid \<Rightarrow> abort + grid" where
  "runSimulation_updater numRows numCols surviveMin surviveMax birthNum g =
     array_map (\<lambda>i row.
       array_map (\<lambda>j cell.
         case count_neighbors numRows numCols g i j operations (Num 0) of
           Inl e \<Rightarrow> Inl e
         | Inr neighbors \<Rightarrow> Inr (next_cell surviveMin surviveMax birthNum cell neighbors))
       0 row)
     0 g"

text \<open>The same two declarations as \<open>src/App.jsx\<close> has them.\<close>

definition App_operations :: "(int \<times> int) list" where
  "App_operations = [(0, 1), (0, -1), (1, -1), (-1, 1), (1, 1), (-1, -1), (1, 0), (-1, 0)]"

definition App_runSimulation_updater ::
  "int \<Rightarrow> int \<Rightarrow> int \<Rightarrow> int \<Rightarrow> int \<Rightarrow> grid \<Rightarrow> abort + grid" where
  "App_runSimulation_updater numRows numCols surviveMin surviveMax birthNum g =
     array_map (\<lambda>i row.
       array_map (\<lambda>j cell.
         case count_neighbors numRows numCols g i j App_operations (Num 0) of
           Inl e \<Rightarrow> Inl e
         | Inr neighbors \<Rightarrow> Inr (next_cell surviveMin surviveMax birthNum cell neighbors))
       0 row)
     0 g"

section \<open>The rule engine as the specification words it\<close>

text \<open>A well-formed grid of the given dimensions: that many rows, each of that many cells,
  each cell \<open>0\<close> (Dead) or \<open>1\<close> (Alive).\<close>

definition wf_grid :: "int \<Rightarrow> int \<Rightarrow> grid \<Rightarrow> bool" where
  "wf_grid rows cols g =
     (int (length g) = rows \<and>
      list_all (\<lambda>row. int (length row) = cols \<and> list_all (\<lambda>c. c = 0 \<or> c = 1) row) g)"

text \<open>The eight Moore offsets in the order the specification lists them:
  \<open>(0,\<plusminus>1), (\<plusminus>1,0), (\<plusminus>1,\<plusminus>1)\<close>.\<close>

definition moore_offsets :: "(int \<times> int) list" where
  "moore_offsets = [(0, 1), (0, -1), (1, 0), (-1, 0), (1, 1), (1, -1), (-1, 1), (-1, -1)]"

definition live_at :: "int \<Rightarrow> int \<Rightarrow> grid \<Rightarrow> nat \<Rightarrow> nat \<Rightarrow> int \<times> int \<Rightarrow> bool" where
  "live_at rows cols g i j d =
     (0 \<le> int i + fst d \<and> int i + fst d < rows \<and> 0 \<le> int j + snd d \<and> int j + snd d < cols \<and>
      g ! nat (int i + fst d) ! nat (int j + snd d) = 1)"

definition live_neighbors :: "int \<Rightarrow> int \<Rightarrow> grid \<Rightarrow> nat \<Rightarrow> nat \<Rightarrow> int" where
  "live_neighbors rows cols g i j = int (length (filter (live_at rows cols g i j) moore_offsets))"

definition spec_next :: "int \<Rightarrow> int \<Rightarrow> int \<Rightarrow> int \<Rightarrow> int \<Rightarrow> int" where
  "spec_next surviveMin surviveMax birthCount cell n =
     (if cell = 1 \<and> (n < surviveMin \<or> n > surviveMax) then 0
      else if cell = 0 \<and> n = birthCount then 1
      else cell)"

definition spec_step :: "int \<Rightarrow> int \<Rightarrow> int \<Rightarrow> int \<Rightarrow> int \<Rightarrow> grid \<Rightarrow> grid" where
  "spec_step rows cols surviveMin surviveMax birthCount g =
     map (\<lambda>i. map (\<lambda>j. spec_next surviveMin surviveMax birthCount (g ! i ! j)
                        (live_neighbors rows cols g i j))
                [0..<nat cols])
         [0..<nat rows]"

text \<open>An otherwise dead grid with the listed cells alive.\<close>

definition pattern_grid :: "int \<Rightarrow> int \<Rightarrow> (int \<times> int) list \<Rightarrow> grid" where
  "pattern_grid rows cols live =
     map (\<lambda>i. map (\<lambda>j. if (int i, int j) \<in> set live then 1 else 0) [0..<nat cols])
         [0..<nat rows]"

text \<open>The glider of the specification: offsets \<open>(0,+1), (+1,+2), (+2,0), (+2,+1), (+2,+2)\<close>
  from the centre \<open>(\<lfloor>rows/2\<rfloor>, \<lfloor>cols/2\<rfloor>)\<close>; the blinker: offsets \<open>(-1,0), (0,0), (+1,0)\<close>.\<close>

definition gliderAt :: "int \<Rightarrow> int \<Rightarrow> grid" where
  "gliderAt rows cols =
     (let r = rows div 2; c = cols div 2 in
      pattern_grid rows cols [(r, c + 1), (r + 1, c + 2), (r + 2, c), (r + 2, c + 1), (r + 2, c + 2)])"

definition blinkerAt :: "int \<Rightarrow> int \<Rightarrow> grid" where
  "blinkerAt rows cols =
     (let r = rows div 2; c = cols div 2 in
      pattern_grid rows cols [(r - 1, c), (r, c), (r + 1, c)])"

section \<open>The component state and its handlers\<close>

text \<open>
  The state of the \<open>App\<close> component of \<open>unnamed/part_000\<close>, without the fields that only
  the rendering reads (drawer, theme, cell size and colour). \<open>runningRef\<close> is the ref that
  every render overwrites with \<open>running\<close>. \<open>timers\<close> are the pending \<open>setTimeout\<close> calls:
  each holds the \<open>runSimulation\<close> closure that scheduled itself, that is, the values of the
  dependencies of \<open>useCallback\<close> at the render that created it.
\<close>

record closure =
  c_numRows :: int
  c_numCols :: int
  c_surviveMin :: int
  c_surviveMax :: int
  c_birthNum :: int
  c_simulationSpeed :: int

record app_state =
  numRows :: int
  numCols :: int
  grid :: grid
  running :: bool
  runningRef :: bool
  surviveMin :: int
  surviveMax :: int
  birthNum :: int
  simulationSpeed :: int
  timers :: "closure list"

text \<open>A handler either returns with the next state, or an exception escapes it and
  leaves the state given with it.\<close>

type_synonym outcome = "(abort \<times> app_state) + app_state"

text \<open>\<open>runningRef.current = running\<close>, executed by every render.\<close>

definition render :: "app_state \<Rightarrow> app_state" where
  "render s = s\<lparr>runningRef := running s\<rparr>"

definition initial_state :: app_state where
  "initial_state =
     \<lparr>numRows = 30, numCols = 50,
      grid = (case generateEmptyGrid 30 50 of Inl e \<Rightarrow> [] | Inr g \<Rightarrow> g),
      running = False, runningRef = False,
      surviveMin = 2, surviveMax = 3, birthNum = 3,
      simulationSpeed = 120, timers = []\<rparr>"

text \<open>The \<open>runSimulation\<close> of the current render.\<close>

definition current_closure :: "app_state \<Rightarrow> closure" where
  "current_closure s =
     \<lparr>c_numRows = numRows s, c_numCols = numCols s,
      c_surviveMin = surviveMin s, c_surviveMax = surviveMax s, c_birthNum = birthNum s,
      c_simulationSpeed = simulationSpeed s\<rparr>"

text \<open>\<open>runSimulation\<close>: return at once unless the ref says running; otherwise queue the
  updater and schedule the same closure again. The next render applies the updater to the
  grid; an exception there escapes with the grid as it was.\<close>

definition runSimulation :: "closure \<Rightarrow> app_state \<Rightarrow> outcome" where
  "runSimulation c s =
     (if \<not> runningRef s then Inr s
      else (case runSimulation_updater (c_numRows c) (c_numCols c)
                   (c_surviveMin c) (c_surviveMax c) (c_birthNum c) (grid s) of
              Inl e \<Rightarrow> Inl (e, s\<lparr>timers := timers s @ [c]\<rparr>)
            | Inr g \<Rightarrow> Inr (s\<lparr>grid := g, timers := timers s @ [c]\<rparr>)))"

text \<open>The \<open>k\<close>-th pending timeout fires: it leaves the timer list, its callback runs, and
  the component renders.\<close>

definition tick :: "nat \<Rightarrow> app_state \<Rightarrow> outcome" where
  "tick k s =
     (if k < length (timers s)
      then (case runSimulation (timers s ! k)
                   (s\<lparr>timers := take k (timers s) @ drop (Suc k) (timers s)\<rparr>) of
              Inl (e, s') \<Rightarrow> Inl (e, s')
            | Inr s' \<Rightarrow> Inr (render s'))
      else Inr s)"

text \<open>The click handler of the Start/Pause button:
  \<open>setRunning((r) => { if (!r) { runningRef.current = true; runSimulation() } return !r })\<close>.\<close>

definition toggleRun :: "app_state \<Rightarrow> outcome" where
  "toggleRun s =
     (if \<not> running s
      then (case runSimulation (current_closure s) (s\<lparr>runningRef := True\<rparr>) of
              Inl (e, s') \<Rightarrow> Inl (e, s')
            | Inr s' \<Rightarrow> Inr (render (s'\<lparr>running := True\<rparr>)))
      else Inr (render (s\<lparr>running := False\<rparr>)))"

definition handleCellClick :: "nat \<Rightarrow> nat \<Rightarrow> app_state \<Rightarrow> app_state" where
  "handleCellClick i j s =
     render (s\<lparr>grid :=
       map (\<lambda>(rowIdx, row).
              map (\<lambda>(colIdx, cell).
                     if rowIdx = i \<and> colIdx = j then (if cell \<noteq> 0 then 0 else 1) else cell)
                  (enumerate 0 row))
           (enumerate 0 (grid s))\<rparr>)"

definition handleClear :: "app_state \<Rightarrow> outcome" where
  "handleClear s =
     (case generateEmptyGrid (numRows s) (numCols s) of
        Inl e \<Rightarrow> Inl (e, s)
      | Inr g \<Rightarrow> Inr (render (s\<lparr>grid := g, running := False\<rparr>)))"

text \<open>The assignments of a pattern, one after the other.\<close>

fun set_cells :: "grid \<Rightarrow> (int \<times> int) list \<Rightarrow> abort + grid" where
  "set_cells g [] = Inr g"
| "set_cells g ((r, c) # ps) =
     (case set_cell g r c 1 of Inl e \<Rightarrow> Inl e | Inr g' \<Rightarrow> set_cells g' ps)"

definition createGlider :: "app_state \<Rightarrow> outcome" where
  "createGlider s =
     (case generateEmptyGrid (numRows s) (numCols s) of
        Inl e \<Rightarrow> Inl (e, s)
      | Inr newGrid \<Rightarrow>
          (let centerRow = numRows s div 2; centerCol = numCols s div 2 in
           case set_cells newGrid
                  [(centerRow, centerCol + 1),
                   (centerRow + 1, centerCol + 2),
                   (centerRow + 2, centerCol),
                   (centerRow + 2, centerCol + 1),
                   (centerRow + 2, centerCol + 2)] of
             Inl e \<Rightarrow> Inl (e, s)
           | Inr g \<Rightarrow> Inr (render (s\<lparr>grid := g\<rparr>))))"

definition createOscillator :: "app_state \<Rightarrow> outcome" where
  "createOscillator s =
     (case generateEmptyGrid (numRows s) (numCols s) of
        Inl e \<Rightarrow> Inl (e, s)
      | Inr newGrid \<Rightarrow>
          (let centerRow = numRows s div 2; centerCol = numCols s div 2 in
           case set_cells newGrid
                  [(centerRow - 1, centerCol),
                   (centerRow, centerCol),
                   (centerRow + 1, centerCol)] of
             Inl e \<Rightarrow> Inl (e, s)
           | Inr g \<Rightarrow> Inr (render (s\<lparr>grid := g\<rparr>))))"

text \<open>\<open>handleResize\<close> has queued the two dimensions before it builds the grid, so they
  are stored even when the construction throws.\<close>

definition handleResize :: "int \<Rightarrow> int \<Rightarrow> app_state \<Rightarrow> outcome" where
  "handleResize rows cols s =
     (case generateEmptyGrid rows cols of
        Inl e \<Rightarrow> Inl (e, render (s\<lparr>numRows := rows, numCols := cols\<rparr>))
      | Inr g \<Rightarrow> Inr (render (s\<lparr>numRows := rows, numCols := cols, grid := g, running := False\<rparr>)))"

text \<open>The \<open>onChange\<close> handlers of the three rule inputs: \<open>Number(e.target.value)\<close> goes
  to the state setter as it is.\<close>

definition setSurviveMin :: "int \<Rightarrow> app_state \<Rightarrow> app_state" where
  "setSurviveMin n s = render (s\<lparr>surviveMin := n\<rparr>)"

definition setSurviveMax :: "int \<Rightarrow> app_state \<Rightarrow> app_state" where
  "setSurviveMax n s = render (s\<lparr>surviveMax := n\<rparr>)"

definition setBirthNum :: "int \<Rightarrow> app_state \<Rightarrow> app_state" where
  "setBirthNum n s = render (s\<lparr>birthNum := n\<rparr>)"

text \<open>What an outcome says about the run state and the grid, for statements about
  concrete runs.\<close>

definition returned :: "outcome \<Rightarrow> app_state option" where
  "returned r = (case r of Inl x \<Rightarrow> None | Inr s \<Rightarrow> Some s)"

text \<open>A 3 by 3 board holding a vertical blinker, stopped, under the classical rule.\<close>

definition blinker3 :: app_state where
  "blinker3 =
     initial_state\<lparr>numRows := 3, numCols := 3, grid := [[0, 1, 0], [0, 1, 0], [0, 1, 0]]\<rparr>"

section \<open>Traversals that do not throw\<close>

lemma array_map_total:
  "(\<And>k. k < length xs \<Longrightarrow> f (n + k) (xs ! k) = Inr (h (n + k) (xs ! k))) \<Longrightarrow>
   array_map f n xs = Inr (map (\<lambda>k. h (n + k) (xs ! k)) [0..<length xs])"
proof (induction xs arbitrary: n)
  case Nil
  then show ?case by simp
next
  case (Cons x xs)
  have hd: "f n x = Inr (h n x)"
    using Cons.prems [of 0] by simp
  have tl: "array_map f (Suc n) xs = Inr (map (\<lambda>k. h (Suc n + k) (xs ! k)) [0..<length xs])"
  proof (rule Cons.IH)
    fix k assume "k < length xs"
    then show "f (Suc n + k) (xs ! k) = Inr (h (Suc n + k) (xs ! k))"
      using Cons.prems [of "Suc k"] by simp
  qed
  have "map (\<lambda>k. h (n + k) ((x # xs) ! k)) [0..<length (x # xs)] =
        h n x # map (\<lambda>k. h (Suc n + k) (xs ! k)) [0..<length xs]"
    by (simp add: upt_conv_Cons map_Suc_upt [symmetric] del: upt_Suc)
  with hd tl show ?case by simp
qed

lemma wf_grid_cell:
  assumes "wf_grid rows cols g" "i < length g"
  shows "int (length (g ! i)) = cols"
    and "j < length (g ! i) \<Longrightarrow> g ! i ! j = 0 \<or> g ! i ! j = 1"
  using assms by (auto simp: wf_grid_def list_all_length)

lemma read_cell_wf:
  assumes "wf_grid rows cols g" "0 \<le> a" "a < rows" "0 \<le> b" "b < cols"
  shows "read_cell g a b = Inr (Num (if g ! nat a ! nat b = 1 then 1 else 0))"
proof -
  have r: "nat a < length g"
    using assms by (auto simp: wf_grid_def)
  have c: "nat b < length (g ! nat a)"
    using wf_grid_cell(1) [OF assms(1) r] assms by auto
  have "g ! nat a ! nat b = 0 \<or> g ! nat a ! nat b = 1"
    using wf_grid_cell(2) [OF assms(1) r c] .
  then show ?thesis
    using r c assms by (auto simp: read_cell_def)
qed

section \<open>The neighbour count\<close>

text \<open>On a well-formed grid the loop over any table of offsets adds one for each offset
  that stays inside the grid and meets a live cell.\<close>

lemma count_neighbors_wf:
  assumes "wf_grid rows cols g"
  shows "count_neighbors rows cols g i j ops (Num a) =
         Inr (Num (a + int (length (filter (live_at rows cols g i j) ops))))"
proof (induction ops arbitrary: a)
  case Nil
  then show ?case by simp
next
  case (Cons d ops)
  obtain x y where d: "d = (x, y)" by (cases d)
  show ?case
  proof (cases "0 \<le> int i + x \<and> int i + x < rows \<and> 0 \<le> int j + y \<and> int j + y < cols")
    case True
    then have "read_cell g (int i + x) (int j + y) =
               Inr (Num (if g ! nat (int i + x) ! nat (int j + y) = 1 then 1 else 0))"
      using read_cell_wf [OF assms] by blast
    with True show ?thesis
      by (simp add: d Cons.IH live_at_def Let_def)
  next
    case False
    then show ?thesis
      by (auto simp add: d Cons.IH live_at_def Let_def)
  qed
qed

text \<open>The table of the source is a rearrangement of the eight offsets of the
  specification, so both count the same cells.\<close>

lemma operations_moore: "mset operations = mset moore_offsets"
  by (simp add: operations_def moore_offsets_def)

lemma length_filter_mset: "length (filter P xs) = size (filter_mset P (mset xs))"
  by (metis mset_filter size_mset)

lemma count_operations: "length (filter P operations) = length (filter P moore_offsets)"
  by (simp only: length_filter_mset operations_moore)

lemma next_cell_Num: "next_cell a b c cell (Num n) = spec_next a b c cell n"
  by (simp add: next_cell_def spec_next_def)

lemma spec_next_alive: "spec_next a b c 1 n = 0 \<longleftrightarrow> n < a \<or> n > b"
  by (simp add: spec_next_def)

lemma spec_next_dead: "spec_next a b c 0 n = 1 \<longleftrightarrow> n = c"
  by (simp add: spec_next_def)

section \<open>One step\<close>

lemma updater_refines:
  assumes "wf_grid rows cols g"
  shows "runSimulation_updater rows cols sMin sMax b g = Inr (spec_step rows cols sMin sMax b g)"
proof -
  have len: "length g = nat rows"
    using assms by (auto simp: wf_grid_def)
  have cnt: "\<And>i j. count_neighbors rows cols g i j operations (Num 0) =
               Inr (Num (live_neighbors rows cols g i j))"
    by (simp add: count_neighbors_wf [OF assms] live_neighbors_def count_operations)
  have row: "array_map (\<lambda>j cell.
         case count_neighbors rows cols g i j operations (Num 0) of
           Inl e \<Rightarrow> Inl e
         | Inr neighbors \<Rightarrow> Inr (next_cell sMin sMax b cell neighbors)) 0 (g ! i)
       = Inr (map (\<lambda>j. spec_next sMin sMax b (g ! i ! j) (live_neighbors rows cols g i j))
                [0..<nat cols])"
    if "i < length g" for i
  proof -
    have l: "length (g ! i) = nat cols"
      using wf_grid_cell(1) [OF assms that] by simp
    show ?thesis
      using array_map_total [where xs = "g ! i" and n = 0
          and h = "\<lambda>j cell. spec_next sMin sMax b cell (live_neighbors rows cols g i j)"
          and f = "\<lambda>j cell. case count_neighbors rows cols g i j operations (Num 0) of
                     Inl e \<Rightarrow> Inl e
                   | Inr neighbors \<Rightarrow> Inr (next_cell sMin sMax b cell neighbors)"]
      by (simp add: cnt next_cell_Num l)
  qed
  show ?thesis
    unfolding runSimulation_updater_def spec_step_def
    using array_map_total [where xs = g and n = 0
          and h = "\<lambda>i (r::int list). map (\<lambda>j. spec_next sMin sMax b (g ! i ! j)
                     (live_neighbors rows cols g i j)) [0..<nat cols]"
          and f = "\<lambda>i row. array_map (\<lambda>j cell.
             case count_neighbors rows cols g i j operations (Num 0) of
               Inl e \<Rightarrow> Inl e
             | Inr neighbors \<Rightarrow> Inr (next_cell sMin sMax b cell neighbors)) 0 row"]
    by (simp add: row len)
qed

text \<open>
  C1. On every well-formed grid, whatever the three rule parameters, one step returns the
  grid in which each cell is decided from the grid before the step: its live neighbours
  are the live cells among the eight Moore offsets that stay inside the grid (nothing wraps
  around); a live cell with fewer than \<open>surviveMin\<close> or more than \<open>surviveMax\<close> of them
  dies, a dead cell with exactly \<open>birthCount\<close> of them comes alive, every other cell
  keeps its state.
\<close>

theorem step_follows_rule:
  "wf_grid rows cols g \<Longrightarrow>
   runSimulation_updater rows cols sMin sMax birth g =
   Inr (spec_step rows cols sMin sMax birth g)"
  by (rule updater_refines)

theorem step_follows_rule_witness:
  "wf_grid 3 3 [[0, 1, 0], [0, 1, 0], [0, 1, 0]] \<and>
   runSimulation_updater 3 3 2 3 3 [[0, 1, 0], [0, 1, 0], [0, 1, 0]] =
     Inr (spec_step 3 3 2 3 3 [[0, 1, 0], [0, 1, 0], [0, 1, 0]]) \<and>
   spec_step 3 3 2 3 3 [[0, 1, 0], [0, 1, 0], [0, 1, 0]] = [[0, 0, 0], [1, 1, 1], [0, 0, 0]]"
proof -
  have h: "wf_grid 3 3 [[0, 1, 0], [0, 1, 0], [0, 1, 0]]"
    by (simp add: wf_grid_def)
  have e: "spec_step 3 3 2 3 3 [[0, 1, 0], [0, 1, 0], [0, 1, 0]] =
           [[0, 0, 0], [1, 1, 1], [0, 0, 0]]"
    by code_simp
  show ?thesis
    using h step_follows_rule [OF h, of 2 3 3] e by simp
qed

text \<open>
  C2. Under the classical rule (survive 2 to 3, birth 3) on a 10 by 10 grid: the blinker
  button gives the vertical triple (4,5), (5,5), (6,5); one step turns it into exactly the
  horizontal triple (5,4), (5,5), (5,6); a second step gives back exactly the vertical
  triple.
\<close>

theorem blinker_period_two:
  "map_option grid (returned (createOscillator (initial_state\<lparr>numRows := 10, numCols := 10\<rparr>))) =
     Some (pattern_grid 10 10 [(4, 5), (5, 5), (6, 5)]) \<and>
   runSimulation_updater 10 10 2 3 3 (pattern_grid 10 10 [(4, 5), (5, 5), (6, 5)]) =
     Inr (pattern_grid 10 10 [(5, 4), (5, 5), (5, 6)]) \<and>
   runSimulation_updater 10 10 2 3 3 (pattern_grid 10 10 [(5, 4), (5, 5), (5, 6)]) =
     Inr (pattern_grid 10 10 [(4, 5), (5, 5), (6, 5)])"
  by code_simp

text \<open>Both files hold the same updater.\<close>

lemma updaters_agree:
  "App_runSimulation_updater rows cols sMin sMax birth g =
   runSimulation_updater rows cols sMin sMax birth g"
  by (simp add: App_runSimulation_updater_def runSimulation_updater_def
      App_operations_def operations_def)

section \<open>The all-dead grid\<close>

lemma wf_grid_replicate:
  "0 \<le> rows \<Longrightarrow> 0 \<le> cols \<Longrightarrow>
   wf_grid rows cols (replicate (nat rows) (replicate (nat cols) 0))"
  by (simp add: wf_grid_def list_all_length)

lemma live_at_all_dead:
  "\<not> live_at rows cols (replicate (nat rows) (replicate (nat cols) 0)) i j d"
  by (auto simp: live_at_def)

lemma live_neighbors_all_dead:
  "live_neighbors rows cols (replicate (nat rows) (replicate (nat cols) 0)) i j = 0"
  by (simp add: live_neighbors_def live_at_all_dead)

lemma map_upt_const: "(\<And>k. k < n \<Longrightarrow> f k = c) \<Longrightarrow> map f [0..<n] = replicate n c"
  by (intro nth_equalityI) auto

lemma spec_step_all_dead:
  "spec_step rows cols sMin sMax 0 (replicate (nat rows) (replicate (nat cols) 0)) =
   replicate (nat rows) (replicate (nat cols) 1)"
  unfolding spec_step_def
  by (intro map_upt_const) (simp add: live_neighbors_all_dead spec_next_def)

text \<open>
  C5. With \<open>birthCount = 0\<close>, one step on the all-dead grid of any positive dimensions
  returns the grid of the same dimensions in which every cell is alive, whatever the two
  survival bounds; in both files.
\<close>

theorem birth_zero_fills_grid:
  "0 < rows \<Longrightarrow> 0 < cols \<Longrightarrow>
   runSimulation_updater rows cols sMin sMax 0 (replicate (nat rows) (replicate (nat cols) 0)) =
     Inr (replicate (nat rows) (replicate (nat cols) 1)) \<and>
   App_runSimulation_updater rows cols sMin sMax 0 (replicate (nat rows) (replicate (nat cols) 0)) =
     Inr (replicate (nat rows) (replicate (nat cols) 1))"
  by (simp add: updaters_agree updater_refines wf_grid_replicate spec_step_all_dead)

theorem birth_zero_fills_grid_witness:
  "(0::int) < 2 \<and> (0::int) < 3 \<and>
   runSimulation_updater 2 3 2 3 0 [[0, 0, 0], [0, 0, 0]] = Inr [[1, 1, 1], [1, 1, 1]] \<and>
   App_runSimulation_updater 2 3 2 3 0 [[0, 0, 0], [0, 0, 0]] = Inr [[1, 1, 1], [1, 1, 1]]"
proof -
  have r: "replicate (nat 2) (replicate (nat 3) (0::int)) = [[0, 0, 0], [0, 0, 0]]"
    and a: "replicate (nat 2) (replicate (nat 3) (1::int)) = [[1, 1, 1], [1, 1, 1]]"
    by (simp_all add: numeral_2_eq_2 numeral_3_eq_3)
  show ?thesis
    using birth_zero_fills_grid [of 2 3 2 3] unfolding r a by simp
qed

section \<open>Dimensions\<close>

lemma spec_next_bit:
  "cell = 0 \<or> cell = 1 \<Longrightarrow> spec_next a b c cell n = 0 \<or> spec_next a b c cell n = 1"
  by (auto simp: spec_next_def)

lemma spec_step_wf:
  assumes "wf_grid rows cols g"
  shows "wf_grid rows cols (spec_step rows cols a b c g)"
proof -
  have l: "length g = nat rows" and r: "0 \<le> rows"
    using assms by (auto simp: wf_grid_def)
  show ?thesis
  proof (cases "rows = 0")
    case True
    then show ?thesis by (simp add: wf_grid_def spec_step_def)
  next
    case False
    then have "0 < length g" using l r by simp
    then have c: "0 \<le> cols"
      using wf_grid_cell(1) [OF assms, of 0] by simp
    have "g ! i ! j = 0 \<or> g ! i ! j = 1" if "i < nat rows" "j < nat cols" for i j
      using that wf_grid_cell(1) [OF assms, of i] wf_grid_cell(2) [OF assms, of i j] l by auto
    then show ?thesis
      using r c by (simp add: wf_grid_def spec_step_def list_all_length spec_next_bit)
  qed
qed

lemma spec_step_dims_wf:
  assumes "wf_grid rows cols g"
  shows "length (spec_step rows cols a b c g) = length g \<and>
         map length (spec_step rows cols a b c g) = map length g"
proof -
  have l: "length g = nat rows"
    using assms by (auto simp: wf_grid_def)
  have "map length g = replicate (nat rows) (nat cols)"
    using assms l by (intro nth_equalityI) (auto simp: wf_grid_def list_all_length)
  moreover have "map length (spec_step rows cols a b c g) = replicate (nat rows) (nat cols)"
    by (simp add: spec_step_def comp_def map_replicate_const)
  ultimately show ?thesis
    using l by (simp add: spec_step_def)
qed

text \<open>
  C6. On every well-formed grid one step (in either file) returns a grid with as many rows
  as its input and as many cells in each row, again well-formed; and for all positive
  \<open>rows\<close> and \<open>cols\<close>, \<open>generateEmptyGrid\<close> returns exactly \<open>rows\<close> rows of exactly
  \<open>cols\<close> dead cells, and \<open>handleResize\<close> stores that grid with the two dimensions and
  stops the run.
\<close>

theorem dimensions_preserved:
  assumes "wf_grid r c g" and "0 < rows" and "0 < cols"
  shows "(\<exists>g'. runSimulation_updater r c sMin sMax birth g = Inr g' \<and>
               App_runSimulation_updater r c sMin sMax birth g = Inr g' \<and>
               length g' = length g \<and> map length g' = map length g \<and> wf_grid r c g') \<and>
         generateEmptyGrid rows cols = Inr (replicate (nat rows) (replicate (nat cols) 0)) \<and>
         handleResize rows cols s =
           Inr (s\<lparr>numRows := rows, numCols := cols,
                  grid := replicate (nat rows) (replicate (nat cols) 0),
                  running := False, runningRef := False\<rparr>)"
proof -
  have "\<exists>g'. runSimulation_updater r c sMin sMax birth g = Inr g' \<and>
               App_runSimulation_updater r c sMin sMax birth g = Inr g' \<and>
               length g' = length g \<and> map length g' = map length g \<and> wf_grid r c g'"
    using assms(1) spec_step_dims_wf [OF assms(1)]
    by (simp add: updaters_agree updater_refines spec_step_wf)
  moreover have e: "generateEmptyGrid rows cols =
                    Inr (replicate (nat rows) (replicate (nat cols) 0))"
    using assms by (simp add: generateEmptyGrid_def)
  moreover have "handleResize rows cols s =
           Inr (s\<lparr>numRows := rows, numCols := cols,
                  grid := replicate (nat rows) (replicate (nat cols) 0),
                  running := False, runningRef := False\<rparr>)"
    by (simp add: handleResize_def e render_def)
  ultimately show ?thesis by blast
qed

theorem dimensions_preserved_witness:
  "wf_grid 2 2 [[1, 0], [0, 1]] \<and> (0::int) < 2 \<and> (0::int) < 3 \<and>
   (\<exists>g'. runSimulation_updater 2 2 2 3 3 [[1, 0], [0, 1]] = Inr g' \<and>
         App_runSimulation_updater 2 2 2 3 3 [[1, 0], [0, 1]] = Inr g' \<and>
         length g' = 2 \<and> map length g' = [2, 2]) \<and>
   generateEmptyGrid 2 3 = Inr [[0, 0, 0], [0, 0, 0]] \<and>
   map_option grid (returned (handleResize 2 3 initial_state)) = Some [[0, 0, 0], [0, 0, 0]] \<and>
   map_option running (returned (handleResize 2 3 initial_state)) = Some False"
proof -
  have h: "wf_grid 2 2 [[1, 0], [0, 1]]"
    by (simp add: wf_grid_def)
  have r: "replicate (nat 2) (replicate (nat 3) (0::int)) = [[0, 0, 0], [0, 0, 0]]"
    by (simp add: numeral_2_eq_2 numeral_3_eq_3)
  show ?thesis
    using h dimensions_preserved [OF h, of 2 3 2 3 3 initial_state] unfolding r
    by (auto simp: returned_def)
qed

text \<open>
  C10. The updater of \<open>runSimulation\<close> in \<open>src/App.jsx\<close> and the one in
  \<open>unnamed/part_000\<close> give the same result (the same next grid, or the same exception)
  on every grid, for the same dimensions and rule parameters.
\<close>

theorem updater_versions_agree:
  "App_runSimulation_updater rows cols sMin sMax birth g =
   runSimulation_updater rows cols sMin sMax birth g"
  by (rule updaters_agree)

section \<open>Clicking a cell\<close>

lemma toggle_row:
  "map (\<lambda>(colIdx, cell). if P \<and> colIdx = j then f cell else cell) (enumerate 0 row) =
   (if P then row[j := f (row ! j)] else row)"
  by (intro nth_equalityI) (auto simp: nth_enumerate_eq nth_list_update)

lemma toggle_rows:
  "map (\<lambda>(rowIdx, row).
          map (\<lambda>(colIdx, cell). if rowIdx = i \<and> colIdx = j then f cell else cell)
              (enumerate 0 row))
       (enumerate 0 g) =
   g[i := (g ! i)[j := f (g ! i ! j)]]"
  by (intro nth_equalityI) (auto simp: nth_enumerate_eq nth_list_update toggle_row)

text \<open>
  C8. For a position \<open>(i, j)\<close> inside the grid, \<open>handleCellClick i j\<close> leaves a grid that
  differs from the old one at \<open>(i, j)\<close> only, where a dead cell has become alive and a live
  one dead; \<open>running\<close> is as before.
\<close>

theorem toggle_flips_one_cell:
  assumes "i < length (grid s)" and "j < length (grid s ! i)"
  shows "grid (handleCellClick i j s) =
           (grid s)[i := (grid s ! i)[j := (if grid s ! i ! j = 0 then 1 else 0)]] \<and>
         grid (handleCellClick i j s) ! i ! j = (if grid s ! i ! j = 0 then 1 else 0) \<and>
         running (handleCellClick i j s) = running s"
proof -
  have g: "grid (handleCellClick i j s) =
           (grid s)[i := (grid s ! i)[j := (if grid s ! i ! j = 0 then 1 else 0)]]"
    using toggle_rows [of i j "\<lambda>cell. if cell \<noteq> 0 then 0 else 1" "grid s"]
    by (simp add: handleCellClick_def render_def)
  show ?thesis
    using assms by (simp add: g) (simp add: handleCellClick_def render_def)
qed

theorem toggle_flips_one_cell_witness:
  "(1::nat) < length [[0, 1], [1, (0::int)]] \<and> (0::nat) < length ([[0, 1], [1, (0::int)]] ! 1) \<and>
   grid (handleCellClick 1 0 (initial_state\<lparr>grid := [[0, 1], [1, 0]], running := True\<rparr>)) =
     [[0, 1], [0, 0]] \<and>
   running (handleCellClick 1 0 (initial_state\<lparr>grid := [[0, 1], [1, 0]], running := True\<rparr>))"
  using toggle_flips_one_cell [of 1 "initial_state\<lparr>grid := [[0, 1], [1, 0]], running := True\<rparr>" 0]
  by simp

section \<open>Rule parameters\<close>

text \<open>
  C9, as the code has it. Each of the three setters stores the number it is given, whatever
  it is, and changes nothing else of the state but the ref that the render refreshes: it
  neither clamps the number into the range 0 to 8 nor rejects it. So the stored parameter
  is within 0 to 8 after the command exactly when the input is.
\<close>

theorem setters_store_input:
  "setSurviveMin n s = s\<lparr>surviveMin := n, runningRef := running s\<rparr> \<and>
   setSurviveMax n s = s\<lparr>surviveMax := n, runningRef := running s\<rparr> \<and>
   setBirthNum n s = s\<lparr>birthNum := n, runningRef := running s\<rparr> \<and>
   surviveMin (setSurviveMin n s) = n \<and>
   surviveMax (setSurviveMax n s) = n \<and>
   birthNum (setBirthNum n s) = n"
  by (simp add: setSurviveMin_def setSurviveMax_def setBirthNum_def render_def)

text \<open>
  C9, as the specification states it, fails: from the initial state, where \<open>surviveMin\<close>
  is 2, setting it to 9 stores 9, which is neither the old value nor within 0 to 8.
\<close>

theorem setters_out_of_range:
  "surviveMin initial_state = 2 \<and>
   surviveMin (setSurviveMin 9 initial_state) = 9 \<and>
   \<not> (0 \<le> surviveMin (setSurviveMin 9 initial_state) \<and>
      surviveMin (setSurviveMin 9 initial_state) \<le> 8)"
  by (simp add: setSurviveMin_def render_def initial_state_def)

section \<open>Seed patterns\<close>

lemma pattern_grid_empty:
  "replicate (nat rows) (replicate (nat cols) 0) = pattern_grid rows cols []"
  by (simp add: pattern_grid_def map_replicate_const)

lemma pattern_grid_set:
  "set live = set live' \<Longrightarrow> pattern_grid rows cols live = pattern_grid rows cols live'"
  by (simp add: pattern_grid_def)

lemma set_cell_pattern:
  assumes "0 \<le> r" "r < rows" "0 \<le> c" "c < cols"
  shows "set_cell (pattern_grid rows cols live) r c 1 =
         Inr (pattern_grid rows cols ((r, c) # live))"
proof -
  have "(pattern_grid rows cols live)
          [nat r := (pattern_grid rows cols live ! nat r)[nat c := 1]] =
        pattern_grid rows cols ((r, c) # live)"
    using assms
    by (intro nth_equalityI) (auto simp: pattern_grid_def nth_list_update)
  moreover have "length (pattern_grid rows cols live) = nat rows"
    by (simp add: pattern_grid_def)
  moreover have "length (pattern_grid rows cols live ! nat r) = nat cols"
    using assms by (simp add: pattern_grid_def)
  ultimately show ?thesis
    using assms by (simp add: set_cell_def)
qed

lemma set_cells_pattern:
  "list_all (\<lambda>(r, c). 0 \<le> r \<and> r < rows \<and> 0 \<le> c \<and> c < cols) ps \<Longrightarrow>
   set_cells (pattern_grid rows cols live) ps = Inr (pattern_grid rows cols (rev ps @ live))"
proof (induction ps arbitrary: live)
  case Nil
  then show ?case by simp
next
  case (Cons p ps)
  obtain r c where p: "p = (r, c)" by (cases p)
  from Cons.prems have b: "0 \<le> r" "r < rows" "0 \<le> c" "c < cols"
    and rest: "list_all (\<lambda>(r, c). 0 \<le> r \<and> r < rows \<and> 0 \<le> c \<and> c < cols) ps"
    by (simp_all add: p)
  show ?case
    by (simp add: p set_cell_pattern [OF b] Cons.IH [OF rest])
qed

lemma createGlider_grid:
  assumes "5 \<le> numRows s" "5 \<le> numCols s"
  shows "createGlider s =
         Inr (s\<lparr>grid := gliderAt (numRows s) (numCols s), runningRef := running s\<rparr>)"
proof -
  define r c where "r = numRows s div 2" and "c = numCols s div 2"
  let ?ps = "[(r, c + 1), (r + 1, c + 2), (r + 2, c), (r + 2, c + 1), (r + 2, c + 2)]"
  have e: "generateEmptyGrid (numRows s) (numCols s) =
           Inr (pattern_grid (numRows s) (numCols s) [])"
    using assms by (simp add: generateEmptyGrid_def pattern_grid_empty)
  have b: "0 \<le> r" "r + 2 < numRows s" "0 \<le> c" "c + 2 < numCols s"
    using assms by (simp_all add: r_def c_def)
  have "set_cells (pattern_grid (numRows s) (numCols s) []) ?ps =
        Inr (pattern_grid (numRows s) (numCols s) (rev ?ps @ []))"
    by (rule set_cells_pattern) (use b in simp)
  also have "pattern_grid (numRows s) (numCols s) (rev ?ps @ []) =
             gliderAt (numRows s) (numCols s)"
    unfolding gliderAt_def Let_def r_def [symmetric] c_def [symmetric]
    by (rule pattern_grid_set) auto
  finally show ?thesis
    by (simp add: createGlider_def e Let_def render_def r_def c_def)
qed

lemma createOscillator_grid:
  assumes "3 \<le> numRows s" "1 \<le> numCols s"
  shows "createOscillator s =
         Inr (s\<lparr>grid := blinkerAt (numRows s) (numCols s), runningRef := running s\<rparr>)"
proof -
  define r c where "r = numRows s div 2" and "c = numCols s div 2"
  let ?ps = "[(r - 1, c), (r, c), (r + 1, c)]"
  have e: "generateEmptyGrid (numRows s) (numCols s) =
           Inr (pattern_grid (numRows s) (numCols s) [])"
    using assms by (simp add: generateEmptyGrid_def pattern_grid_empty)
  have b: "0 \<le> r - 1" "r + 1 < numRows s" "0 \<le> c" "c < numCols s"
    using assms by (simp_all add: r_def c_def)
  have "set_cells (pattern_grid (numRows s) (numCols s) []) ?ps =
        Inr (pattern_grid (numRows s) (numCols s) (rev ?ps @ []))"
    by (rule set_cells_pattern) (use b in simp)
  also have "pattern_grid (numRows s) (numCols s) (rev ?ps @ []) =
             blinkerAt (numRows s) (numCols s)"
    unfolding blinkerAt_def Let_def r_def [symmetric] c_def [symmetric]
    by (rule pattern_grid_set) auto
  finally show ?thesis
    by (simp add: createOscillator_def e Let_def render_def r_def c_def)
qed

text \<open>The glider's offsets stay inside the grid exactly from five rows and five columns on.\<close>

lemma glider_bounds: "(rows::int) div 2 + 2 < rows \<longleftrightarrow> 5 \<le> rows"
  by presburger

text \<open>
  C3, as the code has it. On a board large enough for the pattern (five rows and five
  columns for the glider, three rows and one column for the blinker), each of the two
  pattern buttons replaces the grid with its pattern grid and leaves \<open>running\<close> and the
  pending timeouts as they were: a run in flight goes on, on the new grid.
\<close>

theorem seed_keeps_run_state:
  "(5 \<le> numRows s \<and> 5 \<le> numCols s \<longrightarrow>
      createGlider s =
        Inr (s\<lparr>grid := gliderAt (numRows s) (numCols s), runningRef := running s\<rparr>) \<and>
      map_option running (returned (createGlider s)) = Some (running s) \<and>
      map_option timers (returned (createGlider s)) = Some (timers s)) \<and>
   (3 \<le> numRows s \<and> 1 \<le> numCols s \<longrightarrow>
      createOscillator s =
        Inr (s\<lparr>grid := blinkerAt (numRows s) (numCols s), runningRef := running s\<rparr>) \<and>
      map_option running (returned (createOscillator s)) = Some (running s) \<and>
      map_option timers (returned (createOscillator s)) = Some (timers s))"
  by (simp add: createGlider_grid createOscillator_grid returned_def)

theorem seed_keeps_run_state_witness:
  "(5::int) \<le> 30 \<and> (5::int) \<le> 50 \<and> (3::int) \<le> 30 \<and> (1::int) \<le> 50 \<and>
   map_option running
     (returned (createGlider (initial_state\<lparr>running := True, runningRef := True\<rparr>))) =
     Some True \<and>
   map_option grid
     (returned (createGlider (initial_state\<lparr>running := True, runningRef := True\<rparr>))) =
     Some (gliderAt 30 50) \<and>
   map_option running
     (returned (createOscillator (initial_state\<lparr>running := True, runningRef := True\<rparr>))) =
     Some True \<and>
   map_option grid
     (returned (createOscillator (initial_state\<lparr>running := True, runningRef := True\<rparr>))) =
     Some (blinkerAt 30 50)"
  using seed_keeps_run_state [of "initial_state\<lparr>running := True, runningRef := True\<rparr>"]
  by (simp add: initial_state_def returned_def)

text \<open>
  C3, as the specification states it, fails: on the initial 30 by 50 board with a run in
  flight, either pattern button returns with \<open>running\<close> still true.
\<close>

theorem seed_does_not_stop:
  "map_option running
     (returned (createGlider (initial_state\<lparr>running := True, runningRef := True\<rparr>))) =
     Some True \<and>
   map_option running
     (returned (createOscillator (initial_state\<lparr>running := True, runningRef := True\<rparr>))) =
     Some True"
  by code_simp

text \<open>
  C7. When the glider's offsets stay inside the board (\<open>\<lfloor>rows/2\<rfloor> + 2 < rows\<close> and the
  same for the columns), \<open>createGlider\<close> returns with a well-formed grid of the board's
  dimensions in which a cell is alive exactly when its offset from the centre
  \<open>(\<lfloor>rows/2\<rfloor>, \<lfloor>cols/2\<rfloor>)\<close> is one of \<open>(0,1), (1,2), (2,0), (2,1), (2,2)\<close>; the grid
  before the command has no part in it.
\<close>

theorem glider_cells:
  assumes "numRows s div 2 + 2 < numRows s" and "numCols s div 2 + 2 < numCols s"
  shows "\<exists>s'. createGlider s = Inr s' \<and>
           wf_grid (numRows s) (numCols s) (grid s') \<and>
           (\<forall>i j. i < nat (numRows s) \<and> j < nat (numCols s) \<longrightarrow>
              grid s' ! i ! j =
                (if (int i - numRows s div 2, int j - numCols s div 2) \<in>
                      {(0, 1), (1, 2), (2, 0), (2, 1), (2, 2)}
                 then 1 else 0))"
proof -
  have b: "5 \<le> numRows s" "5 \<le> numCols s"
    using assms by (simp_all add: glider_bounds)
  have w: "wf_grid (numRows s) (numCols s) (gliderAt (numRows s) (numCols s))"
    using b by (simp add: wf_grid_def gliderAt_def pattern_grid_def Let_def list_all_length)
  have c: "gliderAt (numRows s) (numCols s) ! i ! j =
                (if (int i - numRows s div 2, int j - numCols s div 2) \<in>
                      {(0, 1), (1, 2), (2, 0), (2, 1), (2, 2)}
                 then 1 else 0)"
    if "i < nat (numRows s)" "j < nat (numCols s)" for i j
    using that by (auto simp: gliderAt_def pattern_grid_def Let_def)
  show ?thesis
    using w c by (simp add: createGlider_grid [OF b])
qed

theorem glider_cells_witness:
  "(5::int) div 2 + 2 < 5 \<and>
   (\<exists>s'. createGlider (initial_state\<lparr>numRows := 5, numCols := 5,
             grid := [[1, 1, 1, 1, 1], [1, 1, 1, 1, 1], [1, 1, 1, 1, 1],
                      [1, 1, 1, 1, 1], [1, 1, 1, 1, 1]]\<rparr>) = Inr s' \<and>
         grid s' ! 2 ! 3 = 1 \<and> grid s' ! 2 ! 2 = 0) \<and>
   map_option grid (returned (createGlider (initial_state\<lparr>numRows := 5, numCols := 5,
       grid := [[1, 1, 1, 1, 1], [1, 1, 1, 1, 1], [1, 1, 1, 1, 1],
                [1, 1, 1, 1, 1], [1, 1, 1, 1, 1]]\<rparr>))) =
   Some [[0, 0, 0, 0, 0],
         [0, 0, 0, 0, 0],
         [0, 0, 0, 1, 0],
         [0, 0, 0, 0, 1],
         [0, 0, 1, 1, 1]]"
proof -
  let ?s = "initial_state\<lparr>numRows := 5, numCols := 5,
       grid := [[1, 1, 1, 1, 1], [1, 1, 1, 1, 1], [1, 1, 1, 1, 1],
                [1, 1, 1, 1, 1], [1, 1, 1, 1, 1]]\<rparr>"
  have h: "numRows ?s div 2 + 2 < numRows ?s" "numCols ?s div 2 + 2 < numCols ?s"
    by simp_all
  from glider_cells [OF h] obtain s' where s': "createGlider ?s = Inr s'"
    and cells: "\<And>i j. i < nat (numRows ?s) \<and> j < nat (numCols ?s) \<Longrightarrow>
              grid s' ! i ! j =
                (if (int i - numRows ?s div 2, int j - numCols ?s div 2) \<in>
                      {(0, 1), (1, 2), (2, 0), (2, 1), (2, 2)}
                 then 1 else 0)"
    by blast
  have "grid s' ! 2 ! 3 = 1" and "grid s' ! 2 ! 2 = 0"
    using cells [of 2 3] cells [of 2 2] by simp_all
  with s' have 1: "\<exists>s'. createGlider ?s = Inr s' \<and> grid s' ! 2 ! 3 = 1 \<and> grid s' ! 2 ! 2 = 0"
    by blast
  have e: "map_option grid (returned (createGlider ?s)) =
   Some [[0, 0, 0, 0, 0],
         [0, 0, 0, 0, 0],
         [0, 0, 0, 1, 0],
         [0, 0, 0, 0, 1],
         [0, 0, 1, 1, 1]]"
    by code_simp
  show ?thesis
    using 1 e by simp
qed

section \<open>Ticks and the run state\<close>

text \<open>Every render leaves the ref equal to \<open>running\<close>, so the two agree whenever a
  handler or a timeout starts.\<close>

lemma render_synced: "runningRef (render s) = running (render s)"
  by (simp add: render_def)

lemma initial_state_synced: "runningRef initial_state = running initial_state"
  by (simp add: initial_state_def)

lemma handlers_synced:
  "tick k s = Inr s' \<Longrightarrow> runningRef s = running s \<Longrightarrow> runningRef s' = running s'"
  "toggleRun s = Inr s' \<Longrightarrow> runningRef s' = running s'"
  "handleClear s = Inr s' \<Longrightarrow> runningRef s' = running s'"
  "handleResize rows cols s = Inr s' \<Longrightarrow> runningRef s' = running s'"
  "createGlider s = Inr s' \<Longrightarrow> runningRef s' = running s'"
  "createOscillator s = Inr s' \<Longrightarrow> runningRef s' = running s'"
  "runningRef (handleCellClick i j s) = running (handleCellClick i j s)"
  "runningRef (setSurviveMin n s) = running (setSurviveMin n s)"
  "runningRef (setSurviveMax n s) = running (setSurviveMax n s)"
  "runningRef (setBirthNum n s) = running (setBirthNum n s)"
  by (auto simp: tick_def toggleRun_def handleClear_def handleResize_def createGlider_def
      createOscillator_def handleCellClick_def setSurviveMin_def setSurviveMax_def
      setBirthNum_def render_def Let_def
      split: if_splits sum.splits prod.splits)

lemma tick_stopped:
  assumes "\<not> running s" "runningRef s = running s"
  shows "tick k s = Inr (if k < length (timers s)
                         then s\<lparr>timers := take k (timers s) @ drop (Suc k) (timers s)\<rparr>
                         else s)"
  using assms by (simp add: tick_def runSimulation_def render_def)

lemma pause_state:
  "running s \<Longrightarrow> toggleRun s = Inr (s\<lparr>running := False, runningRef := False\<rparr>)"
  by (simp add: toggleRun_def render_def)

text \<open>
  C4. A timeout that fires while the component is stopped returns without touching the
  grid and without scheduling another one; in particular, from any running state, after
  the Pause click the next timeout to fire, whichever it is, leaves the grid as it was
  when Pause was clicked.
\<close>

theorem stopped_tick_keeps_grid:
  "(\<not> running s \<and> runningRef s = running s \<longrightarrow>
      (\<exists>s'. tick k s = Inr s' \<and> grid s' = grid s \<and> \<not> running s')) \<and>
   (running s \<longrightarrow>
      (\<exists>s1 s2. toggleRun s = Inr s1 \<and> \<not> running s1 \<and> grid s1 = grid s \<and>
               tick k s1 = Inr s2 \<and> grid s2 = grid s \<and> \<not> running s2))"
proof (intro conjI impI)
  assume "\<not> running s \<and> runningRef s = running s"
  then show "\<exists>s'. tick k s = Inr s' \<and> grid s' = grid s \<and> \<not> running s'"
    by (simp add: tick_stopped)
next
  assume r: "running s"
  let ?s1 = "s\<lparr>running := False, runningRef := False\<rparr>"
  have "tick k ?s1 = Inr (if k < length (timers ?s1)
                         then ?s1\<lparr>timers := take k (timers ?s1) @ drop (Suc k) (timers ?s1)\<rparr>
                         else ?s1)"
    by (rule tick_stopped) simp_all
  then show "\<exists>s1 s2. toggleRun s = Inr s1 \<and> \<not> running s1 \<and> grid s1 = grid s \<and>
               tick k s1 = Inr s2 \<and> grid s2 = grid s \<and> \<not> running s2"
    using r by (simp add: pause_state)
qed

theorem stopped_tick_keeps_grid_witness:
  "\<not> running (blinker3\<lparr>timers := [current_closure blinker3]\<rparr>) \<and>
   runningRef (blinker3\<lparr>timers := [current_closure blinker3]\<rparr>) =
     running (blinker3\<lparr>timers := [current_closure blinker3]\<rparr>) \<and>
   map_option grid (returned (tick 0 (blinker3\<lparr>timers := [current_closure blinker3]\<rparr>))) =
     Some [[0, 1, 0], [0, 1, 0], [0, 1, 0]] \<and>
   running (blinker3\<lparr>running := True, runningRef := True,
                     timers := [current_closure blinker3]\<rparr>) \<and>
   map_option grid (returned (tick 0 (blinker3\<lparr>running := True, runningRef := True,
                     timers := [current_closure blinker3]\<rparr>))) =
     Some [[0, 0, 0], [1, 1, 1], [0, 0, 0]] \<and>
   (\<exists>s1. toggleRun (blinker3\<lparr>running := True, runningRef := True,
                     timers := [current_closure blinker3]\<rparr>) = Inr s1 \<and>
      map_option grid (returned (tick 0 s1)) = Some [[0, 1, 0], [0, 1, 0], [0, 1, 0]])"
proof -
  let ?a = "blinker3\<lparr>timers := [current_closure blinker3]\<rparr>"
  let ?b = "blinker3\<lparr>running := True, runningRef := True,
                     timers := [current_closure blinker3]\<rparr>"
  have ha: "\<not> running ?a \<and> runningRef ?a = running ?a"
    by (simp add: blinker3_def initial_state_def)
  have hb: "running ?b"
    by simp
  have ga: "grid ?a = [[0, 1, 0], [0, 1, 0], [0, 1, 0]]"
    and gb: "grid ?b = [[0, 1, 0], [0, 1, 0], [0, 1, 0]]"
    by (simp_all add: blinker3_def)
  have run: "map_option grid (returned (tick 0 ?b)) = Some [[0, 0, 0], [1, 1, 1], [0, 0, 0]]"
    by code_simp
  from stopped_tick_keeps_grid [of ?a 0] ha
  have 1: "map_option grid (returned (tick 0 ?a)) = Some [[0, 1, 0], [0, 1, 0], [0, 1, 0]]"
    unfolding ga by (auto simp: returned_def)
  from stopped_tick_keeps_grid [of ?b 0] hb
  have 2: "\<exists>s1. toggleRun ?b = Inr s1 \<and>
      map_option grid (returned (tick 0 s1)) = Some [[0, 1, 0], [0, 1, 0], [0, 1, 0]]"
    unfolding gb by (auto simp: returned_def)
  show ?thesis
    using ha hb run 1 2 by blast
qed

end
